theory Spec2Isabelle
  imports Main "HOL-Library.Sublist"
begin

section \<open>JavaScript values the proxy relies on\<close>

text \<open>
  The program is \<^verbatim>\<open>src/ipfs-vhosts-proxy.js\<close>. Strings are \<open>string\<close>; \<open>null\<close> and
  \<open>undefined\<close> are \<open>None\<close>. An exception is a value of \<open>error\<close>, and a function that can
  throw returns \<open>error + 'a\<close>.
\<close>

datatype error =
    SyntaxError string      \<comment> \<open>thrown by \<open>new RegExp\<close>\<close>
  | ReferenceError string   \<comment> \<open>an identifier that is not defined\<close>
  | TypeError string        \<comment> \<open>a method called on \<open>undefined\<close>\<close>
  | InvalidCID              \<comment> \<open>thrown by \<open>new CID\<close>\<close>
  | IOError string          \<comment> \<open>a rejected call of the IPFS client\<close>
  | UnmodelledRegExp        \<comment> \<open>not a JavaScript error: the pattern leaves the modelled syntax\<close>

text \<open>Truthiness of a string (\<open>if (cid)\<close>): the empty string is falsy.\<close>

definition truthy :: "string \<Rightarrow> bool" where
  "truthy s = (s \<noteq> [])"

text \<open>Truthiness of a value that is a string or \<open>null\<close> (\<open>if (cidKey)\<close>, \<open>if (newPath)\<close>).\<close>

fun truthy_opt :: "string option \<Rightarrow> bool" where
  "truthy_opt None = False"
| "truthy_opt (Some s) = truthy s"

text \<open>
  A template literal or a property access turns \<open>null\<close> into the text \<open>null\<close>
  (\<open>`/${cidKey}`\<close>, \<open>state.vhosts[cidKey]\<close>).
\<close>

fun to_text :: "string option \<Rightarrow> string" where
  "to_text None = ''null''"
| "to_text (Some s) = s"

section \<open>Regular expressions\<close>

text \<open>
  \<open>getCIDKeyFromPath\<close> builds \<open>new RegExp(`^/${key}($|/)`)\<close> from every vhost name,
  unescaped, so the name is read as pattern syntax. The model covers this part of the
  pattern language (no flags): literal characters, \<open>.\<close>, \<open>^\<close>, \<open>$\<close>, groups \<open>( )\<close>,
  alternation \<open>|\<close> and the quantifiers \<open>*\<close>, \<open>+\<close>, \<open>?\<close> (each optionally followed by the
  lazy mark \<open>?\<close>). Without the \<open>u\<close> flag, \<open>]\<close> and \<open>}\<close> are literal characters, and so
  is a \<open>{\<close> that does not begin a braced quantifier (\<open>{n}\<close>, \<open>{n,}\<close>, \<open>{n,m}\<close>);
  a \<open>[\<close> with no \<open>]\<close> after it is an unterminated character class; a backslash before
  a syntax character or \<open>/\<close> makes it a literal character. What is left, any other
  backslash escape, a character class, a braced quantifier and a group that starts with
  \<open>(?\<close>, is answered \<open>UnmodelledRegExp\<close>.
\<close>

datatype rx =
    REmpty
  | RChar char
  | RAny
  | RBol
  | REol
  | RSeq rx rx
  | RAlt rx rx
  | RStar rx
  | RPlus rx
  | ROpt rx
  | RGroup rx

text \<open>What the last term of the alternative being read is: only an atom takes a quantifier.\<close>

datatype tkind = Assertion | Atom | Quantified | Lazy

type_synonym frame = "rx list \<times> (rx \<times> tkind) list"

definition seq_of :: "(rx \<times> tkind) list \<Rightarrow> rx" where
  "seq_of ts = foldr RSeq (map fst (rev ts)) REmpty"

definition alt_of :: "frame \<Rightarrow> rx" where
  "alt_of f = foldl (\<lambda>acc a. RAlt a acc) (seq_of (snd f)) (fst f)"

text \<open>The text after a \<open>{\<close> has the shape of a braced quantifier: \<open>n}\<close>, \<open>n,}\<close> or \<open>n,m}\<close>.\<close>

definition is_digit :: "char \<Rightarrow> bool" where
  "is_digit c = (48 \<le> (of_char c :: nat) \<and> (of_char c :: nat) \<le> 57)"

definition braced_quantifier :: "string \<Rightarrow> bool" where
  "braced_quantifier cs =
     (let n = takeWhile is_digit cs; r = dropWhile is_digit cs in
      n \<noteq> [] \<and>
      (case r of
         [] \<Rightarrow> False
       | c # r1 \<Rightarrow>
           if c = CHR ''}'' then True
           else if c = CHR '','' then
             (case dropWhile is_digit r1 of [] \<Rightarrow> False | d # r2 \<Rightarrow> d = CHR ''}'')
           else False))"

definition quantify :: "char \<Rightarrow> rx \<Rightarrow> rx" where
  "quantify c r = (if c = CHR ''*'' then RStar r else if c = CHR ''+'' then RPlus r else ROpt r)"

text \<open>
  The parser reads the pattern left to right. The frame holds the alternatives finished
  so far (latest first) and the terms of the current one (latest first); the stack holds
  the frames of the groups still open.
\<close>

fun parse_rx :: "frame \<Rightarrow> frame list \<Rightarrow> string \<Rightarrow> error + rx" where
  "parse_rx f fs [] =
     (if fs = [] then Inr (alt_of f) else Inl (SyntaxError ''Unterminated group''))"
| "parse_rx f fs (c # cs) =
     (if c = CHR ''('' then
        (case cs of
           CHR ''?'' # _ \<Rightarrow> Inl UnmodelledRegExp
         | _ \<Rightarrow> parse_rx ([], []) (f # fs) cs)
      else if c = CHR '')'' then
        (case fs of
           [] \<Rightarrow> Inl (SyntaxError ''Unmatched )'')
         | p # ps \<Rightarrow> parse_rx (fst p, (RGroup (alt_of f), Atom) # snd p) ps cs)
      else if c = CHR ''|'' then parse_rx (seq_of (snd f) # fst f, []) fs cs
      else if c = CHR ''*'' \<or> c = CHR ''+'' \<or> c = CHR ''?'' then
        (case snd f of
           (r, Atom) # ts \<Rightarrow> parse_rx (fst f, (quantify c r, Quantified) # ts) fs cs
         | (r, Quantified) # ts \<Rightarrow>
             (if c = CHR ''?'' then parse_rx (fst f, (r, Lazy) # ts) fs cs
              else Inl (SyntaxError ''Nothing to repeat''))
         | _ \<Rightarrow> Inl (SyntaxError ''Nothing to repeat''))
      else if c = CHR ''^'' then parse_rx (fst f, (RBol, Assertion) # snd f) fs cs
      else if c = CHR ''$'' then parse_rx (fst f, (REol, Assertion) # snd f) fs cs
      else if c = CHR ''.'' then parse_rx (fst f, (RAny, Atom) # snd f) fs cs
      else if c = CHR ''['' then
        (if CHR '']'' \<in> set cs then Inl UnmodelledRegExp
         else Inl (SyntaxError ''Unterminated character class''))
      else if c = CHR 0x5C then
        (case cs of
           [] \<Rightarrow> Inl (SyntaxError (CHR 0x5C # '' at end of pattern''))
         | d # ds \<Rightarrow>
             if d \<in> set ''^$.*+?()[]{}|/'' \<or> d = CHR 0x5C
             then parse_rx (fst f, (RChar d, Atom) # snd f) fs ds
             else Inl UnmodelledRegExp)
      else if c = CHR ''{'' \<and> braced_quantifier cs then Inl UnmodelledRegExp
      else parse_rx (fst f, (RChar c, Atom) # snd f) fs cs)"

definition new_RegExp :: "string \<Rightarrow> error + rx" where
  "new_RegExp pat = parse_rx ([], []) [] pat"

text \<open>
  Matching. A position is the rest of the subject together with a flag that says whether
  it is the start of the subject. \<open>ends r p\<close> lists the positions where a match of \<open>r\<close>
  that starts at \<open>p\<close> can end. Whether a match exists does not depend on the order the
  engine tries them in, so greedy and lazy quantifiers are the same here.

  \<open>star_from step p\<close> lists the positions that any number of repetitions of \<open>step\<close>
  reaches from \<open>p\<close>. As in the language's RepeatMatcher, a repetition that is not required
  and consumes nothing is rejected, so every further repetition shortens the rest.
\<close>

type_synonym pos = "bool \<times> string"

function star_from :: "(pos \<Rightarrow> pos list) \<Rightarrow> pos \<Rightarrow> pos list" where
  "star_from step p =
     p # concat (map (star_from step) (filter (\<lambda>q. length (snd q) < length (snd p)) (step p)))"
  by pat_completeness auto
termination
  by (relation "measure (\<lambda>(step, p). length (snd p))") auto

primrec ends :: "rx \<Rightarrow> pos \<Rightarrow> pos list" where
  "ends REmpty = (\<lambda>p. [p])"
| "ends (RChar c) = (\<lambda>p. case snd p of [] \<Rightarrow> [] | x # xs \<Rightarrow> if x = c then [(False, xs)] else [])"
| "ends RAny = (\<lambda>p. case snd p of [] \<Rightarrow> []
     | x # xs \<Rightarrow> if x = CHR 0x0A \<or> x = CHR 0x0D then [] else [(False, xs)])"
| "ends RBol = (\<lambda>p. if fst p then [p] else [])"
| "ends REol = (\<lambda>p. if snd p = [] then [p] else [])"
| "ends (RSeq a b) = (\<lambda>p. concat (map (ends b) (ends a p)))"
| "ends (RAlt a b) = (\<lambda>p. ends a p @ ends b p)"
| "ends (RStar a) = star_from (ends a)"
| "ends (RPlus a) = (\<lambda>p. concat (map (star_from (ends a)) (ends a p)))"
| "ends (ROpt a) = (\<lambda>p. p # ends a p)"
| "ends (RGroup a) = ends a"

text \<open>\<open>str.match(re) !== null\<close> for a pattern without flags: a match may start anywhere.\<close>

definition matches :: "rx \<Rightarrow> string \<Rightarrow> bool" where
  "matches r s = list_ex (\<lambda>i. ends r (i = 0, drop i s) \<noteq> []) [0..<Suc (length s)]"

section \<open>The registry snapshot\<close>

text \<open>
  \<open>state.vhosts\<close> is a plain object from vhost name to CID text. It is modelled as the list
  of its own properties in the order \<open>Object.keys\<close> gives them: names that are array
  indices first, ascending, then the other names in the order they were added. The program
  never writes a property in place: every update builds a new object and assigns it to
  \<open>state.vhosts\<close>. The names of a list are distinct. Values are strings, as the control
  plane writes them; a refresh can load any text, the empty one (which is falsy) included.
\<close>

type_synonym vhosts = "(string \<times> string) list"

definition index_value :: "string \<Rightarrow> nat" where
  "index_value s = foldl (\<lambda>n c. 10 * n + (of_char c - 48)) 0 s"

text \<open>An array index is the canonical decimal text of a number below \<open>2^32 - 1\<close>.\<close>

definition is_array_index :: "string \<Rightarrow> bool" where
  "is_array_index s =
     (s \<noteq> [] \<and> list_all is_digit s \<and> (if hd s = CHR ''0'' then s = ''0'' else True)
      \<and> index_value s < 4294967295)"

definition obj_keys :: "vhosts \<Rightarrow> string list" where
  "obj_keys obj = map fst obj"

text \<open>
  \<open>obj[key]\<close> reads an own property or, where there is none of that name, what the object
  inherits from \<open>Object.prototype\<close>: a function, or for \<open>__proto__\<close> the prototype itself.
  An inherited value is truthy. In a template literal a function stands as its source text.
\<close>

datatype jsvalue = Undefined | Str string | Inherited string

definition Object_prototype_names :: "string list" where
  "Object_prototype_names =
     [''constructor'', ''__defineGetter__'', ''__defineSetter__'', ''hasOwnProperty'',
      ''__lookupGetter__'', ''__lookupSetter__'', ''isPrototypeOf'', ''propertyIsEnumerable'',
      ''toString'', ''valueOf'', ''__proto__'', ''toLocaleString'']"

definition obj_get :: "vhosts \<Rightarrow> string \<Rightarrow> jsvalue" where
  "obj_get obj k =
     (case map_of obj k of
        Some v \<Rightarrow> Str v
      | None \<Rightarrow> if k \<in> set Object_prototype_names then Inherited k else Undefined)"

fun truthy_value :: "jsvalue \<Rightarrow> bool" where
  "truthy_value Undefined = False"
| "truthy_value (Str s) = truthy s"
| "truthy_value (Inherited n) = True"

fun value_text :: "jsvalue \<Rightarrow> string" where
  "value_text Undefined = ''undefined''"
| "value_text (Str s) = s"
| "value_text (Inherited n) =
     (if n = ''__proto__'' then ''[object Object]''
      else if n = ''constructor'' then ''function Object() { [native code] }''
      else ''function '' @ n @ ''() { [native code] }'')"

fun insert_index :: "string \<Rightarrow> string \<Rightarrow> vhosts \<Rightarrow> vhosts" where
  "insert_index k v [] = [(k, v)]"
| "insert_index k v (e # es) =
     (if is_array_index (fst e) \<and> index_value (fst e) < index_value k
      then e # insert_index k v es else (k, v) # e # es)"

text \<open>\<open>{ ...obj, [k]: v }\<close>: an existing property keeps its place, a new one is added.\<close>

definition obj_set :: "vhosts \<Rightarrow> string \<Rightarrow> string \<Rightarrow> vhosts" where
  "obj_set obj k v =
     (if k \<in> set (obj_keys obj) then map (\<lambda>e. if fst e = k then (k, v) else e) obj
      else if is_array_index k then insert_index k v obj
      else obj @ [(k, v)])"

text \<open>\<open>const copy = { ...obj }; delete copy[k]; { ...copy }\<close>\<close>

definition obj_delete :: "vhosts \<Rightarrow> string \<Rightarrow> vhosts" where
  "obj_delete obj k = filter (\<lambda>e. fst e \<noteq> k) obj"

section \<open>String.prototype.replace with a string pattern\<close>

fun split_first :: "string \<Rightarrow> string \<Rightarrow> (string \<times> string) option" where
  "split_first pat [] = (if pat = [] then Some ([], []) else None)"
| "split_first pat (c # cs) =
     (if prefix pat (c # cs) then Some ([], drop (length pat) (c # cs))
      else map_option (\<lambda>ba. (c # fst ba, snd ba)) (split_first pat cs))"

text \<open>
  The replacement text is a template: \<open>$$\<close> is a dollar sign, \<open>$&\<close> the matched text,
  \<open>$`\<close> the text before the match and \<open>$'\<close> the text after it. A string pattern has no
  captures, so every other \<open>$\<close> stands for itself.
\<close>

fun get_substitution :: "string \<Rightarrow> string \<Rightarrow> string \<Rightarrow> string \<Rightarrow> string" where
  "get_substitution m b a [] = []"
| "get_substitution m b a [c] = [c]"
| "get_substitution m b a (c # d # cs) =
     (if c = CHR ''$'' \<and> d = CHR ''$'' then CHR ''$'' # get_substitution m b a cs
      else if c = CHR ''$'' \<and> d = CHR ''&'' then m @ get_substitution m b a cs
      else if c = CHR ''$'' \<and> d = CHR 0x60 then b @ get_substitution m b a cs
      else if c = CHR ''$'' \<and> d = CHR 0x27 then a @ get_substitution m b a cs
      else c # get_substitution m b a (d # cs))"

definition js_replace :: "string \<Rightarrow> string \<Rightarrow> string \<Rightarrow> string" where
  "js_replace s pat repl =
     (case split_first pat s of
        None \<Rightarrow> s
      | Some ba \<Rightarrow> fst ba @ get_substitution pat (fst ba) (snd ba) repl @ snd ba)"

section \<open>Libraries and configuration\<close>

text \<open>
  The packages \<open>is-ip\<close> and \<open>cids\<close> are not part of the repository; what the program
  calls of them is a parameter. \<open>'c\<close> is the type of CID objects; \<open>new_CID\<close> is
  \<open>None\<close> where the constructor throws; \<open>cid_toV1_base32 c\<close> is
  \<open>c.toV1().toBaseEncodedString('base32')\<close>.
\<close>

record 'c lib =
  isIP :: "string \<Rightarrow> bool"
  new_CID :: "string \<Rightarrow> 'c option"
  cid_version :: "'c \<Rightarrow> nat"
  cid_multibaseName :: "'c \<Rightarrow> string"
  cid_toString :: "'c \<Rightarrow> string"
  cid_toV1_base32 :: "'c \<Rightarrow> string"

text \<open>
  \<open>config.ipfs.gateway.address\<close> as \<open>new URL\<close> reads it: \<open>hostname\<close> and \<open>host\<close>
  (the hostname with the port, if any). The address is taken to be a URL that parses.
\<close>

record gateway =
  gw_hostname :: string
  gw_host :: string

definition isTargetSubdomainsSupported :: "'c lib \<Rightarrow> gateway \<Rightarrow> bool" where
  "isTargetSubdomainsSupported L gw = (\<not> isIP L (gw_hostname gw))"

section \<open>Resolver\<close>

text \<open>
  \<open>Object.keys(state.vhosts).find(key => pathName.match(new RegExp(...)) !== null)\<close>:
  the keys are tried in order, the pattern of a key is compiled when the key is tried,
  and an exception of \<open>new RegExp\<close> leaves \<open>find\<close>.
\<close>

fun find_key :: "string list \<Rightarrow> string \<Rightarrow> error + string option" where
  "find_key [] pathName = Inr None"
| "find_key (key # keys) pathName =
     (case new_RegExp (''^/'' @ key @ ''($|/)'') of
        Inl e \<Rightarrow> Inl e
      | Inr r \<Rightarrow> if matches r pathName then Inr (Some key) else find_key keys pathName)"

definition getCIDKeyFromPath :: "vhosts \<Rightarrow> string \<Rightarrow> error + string option" where
  "getCIDKeyFromPath vh pathName =
     (case find_key (obj_keys vh) pathName of
        Inl e \<Rightarrow> Inl e
      | Inr cidKey \<Rightarrow> if truthy_opt cidKey then Inr cidKey else Inr None)"

text \<open>
  \<open>host.split(':')\<close> and \<open>hostName.split('.')\<close> always have a first element: the text
  before the first separator. A request without a Host header has \<open>host\<close> undefined, and
  \<open>host.split\<close> throws.
\<close>

definition getCIDKeyFromHost :: "'c lib \<Rightarrow> vhosts \<Rightarrow> string option \<Rightarrow> error + string option" where
  "getCIDKeyFromHost L vh host =
     (case host of
        None \<Rightarrow> Inl (TypeError ''Cannot read properties of undefined (reading split)'')
      | Some h \<Rightarrow>
          (let hostName = takeWhile (\<lambda>c. c \<noteq> CHR '':'') h in
           if isIP L hostName then Inr None
           else
             (let subdomain = takeWhile (\<lambda>c. c \<noteq> CHR ''.'') hostName in
              if subdomain \<in> set (obj_keys vh) then Inr (Some subdomain) else Inr None)))"

section \<open>Rewriter\<close>

definition replaceIPFSPath :: "vhosts \<Rightarrow> string \<Rightarrow> string option \<Rightarrow> string option" where
  "replaceIPFSPath vh pathName cidKey =
     (let cid = obj_get vh (to_text cidKey) in
      if truthy_value cid
      then Some (js_replace pathName (''/'' @ to_text cidKey) (''/ipfs/'' @ value_text cid))
      else None)"

definition getIPFSPathFromCIDKey :: "vhosts \<Rightarrow> string \<Rightarrow> string option \<Rightarrow> string option" where
  "getIPFSPathFromCIDKey vh pathName cidKey =
     (let cid = obj_get vh (to_text cidKey) in
      if truthy_value cid then Some (''/ipfs/'' @ value_text cid @ pathName) else None)"

definition getIPFSPathFromPath :: "vhosts \<Rightarrow> string \<Rightarrow> error + string option" where
  "getIPFSPathFromPath vh pathName =
     (case getCIDKeyFromPath vh pathName of
        Inl e \<Rightarrow> Inl e
      | Inr cidKey \<Rightarrow> Inr (replaceIPFSPath vh pathName cidKey))"

text \<open>\<open>new CID\<close> throws for a value that is not a string (and not a byte array or a CID).\<close>

definition getIPFSHostFromCIDKey :: "'c lib \<Rightarrow> vhosts \<Rightarrow> string \<Rightarrow> string option \<Rightarrow> error + string option" where
  "getIPFSHostFromCIDKey L vh host cidKey =
     (let cid = obj_get vh (to_text cidKey) in
      if \<not> truthy_value cid then Inr None
      else
        (case (case cid of Str s \<Rightarrow> new_CID L s | _ \<Rightarrow> None) of
           None \<Rightarrow> Inl InvalidCID
         | Some cidObj \<Rightarrow>
             (let isV1B32CID = (cid_version L cidObj = 1 \<and> cid_multibaseName L cidObj = ''base32'');
                  subdomain = (if isV1B32CID then cid_toString L cidObj else cid_toV1_base32 L cidObj)
              in Inr (Some (subdomain @ ''.ipfs.'' @ host)))))"

text \<open>
  The \<open>proxyReq\<close> handler. Its inputs are the outgoing request's Host header and path;
  its result is the path it leaves in \<open>proxyReq.path\<close> (\<open>None\<close> is \<open>null\<close>).
\<close>

definition proxyReq_handler :: "'c lib \<Rightarrow> gateway \<Rightarrow> vhosts \<Rightarrow> string option \<Rightarrow> string \<Rightarrow> error + string option" where
  "proxyReq_handler L gw vh host path =
     (case getCIDKeyFromHost L vh host of
        Inl e \<Rightarrow> Inl e
      | Inr cidKey \<Rightarrow>
          if truthy_opt cidKey then
            (if \<not> isTargetSubdomainsSupported L gw
             then Inr (getIPFSPathFromCIDKey vh path cidKey)
             else Inr (Some path))
          else
            (case getIPFSPathFromPath vh path of
               Inl e \<Rightarrow> Inl e
             | Inr newPath \<Rightarrow> if truthy_opt newPath then Inr newPath else Inr (Some path)))"

text \<open>
  The fallback handler (\<open>app.use\<close>). Its result is the host of the \<open>target\<close> it hands to
  \<open>proxy.web\<close> and the request's Host header as it leaves it.
\<close>

record forward =
  target_host :: string
  host_header :: "string option"

definition fallback_handler :: "'c lib \<Rightarrow> gateway \<Rightarrow> vhosts \<Rightarrow> string option \<Rightarrow> error + forward" where
  "fallback_handler L gw vh host =
     (case getCIDKeyFromHost L vh host of
        Inl e \<Rightarrow> Inl e
      | Inr cidKey \<Rightarrow>
          if truthy_opt cidKey \<and> isTargetSubdomainsSupported L gw then
            (case getIPFSHostFromCIDKey L vh (gw_host gw) cidKey of
               Inl e \<Rightarrow> Inl e
             | Inr newHost \<Rightarrow>
                 if truthy_opt newHost
                 then Inr \<lparr>target_host = to_text newHost, host_header = newHost\<rparr>
                 else Inr \<lparr>target_host = gw_host gw, host_header = host\<rparr>)
          else Inr \<lparr>target_host = gw_host gw, host_header = host\<rparr>)"

text \<open>
  A request through the proxy. The fallback handler calls
  \<open>proxy.web(req, res, { target, changeOrigin: true, secure: false })\<close>. The forwarder
  (package \<open>http-proxy\<close>) builds the outgoing request for \<open>target\<close>; with
  \<open>changeOrigin\<close> it sets the Host header of the outgoing request to the host of the
  target, whatever Host the client sent, and then emits \<open>proxyReq\<close>. So the
  \<open>proxyReq\<close> handler reads the target's host. The event is emitted once the outgoing
  request has a socket, so a refresh can replace the snapshot in between: \<open>vh1\<close> is the
  snapshot the fallback handler reads, \<open>vh2\<close> the one the \<open>proxyReq\<close> handler reads.
  The result is the host (and Host header) and the path of the outgoing request.
\<close>

record outgoing =
  out_host :: string
  out_path :: "string option"

definition forward_request ::
  "'c lib \<Rightarrow> gateway \<Rightarrow> vhosts \<Rightarrow> vhosts \<Rightarrow> string option \<Rightarrow> string \<Rightarrow> error + outgoing" where
  "forward_request L gw vh1 vh2 host path =
     (case fallback_handler L gw vh1 host of
        Inl e \<Rightarrow> Inl e
      | Inr f \<Rightarrow>
          (case proxyReq_handler L gw vh2 (Some (target_host f)) path of
             Inl e \<Rightarrow> Inl e
           | Inr p \<Rightarrow> Inr \<lparr> out_host = target_host f, out_path = p \<rparr>))"

section \<open>Registry synchronisation\<close>

text \<open>
  The world of the control plane: the in-memory snapshot \<open>state.vhosts\<close>; the durable
  record behind the IPNS name as \<open>JSON.parse\<close> reads it (\<open>None\<close> when \<open>ipfs.cat\<close>
  rejects or the bytes are not JSON); whether \<open>ipfs.add\<close> and \<open>ipfs.name.publish\<close>
  succeed; the effects completed so far; and the rejections of promises that nothing
  handles (the runtime ends the process on one; versions of Node before 15 only warn). An
  asynchronous function takes the world and returns its outcome with the new world.
\<close>

datatype effect = Refreshed | Published vhosts

record world =
  state_vhosts :: vhosts
  durable :: "vhosts option"
  can_publish :: bool
  trace :: "effect list"
  unhandled :: "error list"

type_synonym 'a io = "world \<Rightarrow> (error + 'a) \<times> world"

definition refreshVhosts :: "unit io" where
  "refreshVhosts w =
     (case durable w of
        None \<Rightarrow> (Inl (IOError ''ipfs.cat''), w)
      | Some d \<Rightarrow> (Inr (), w\<lparr>state_vhosts := d, trace := trace w @ [Refreshed]\<rparr>))"

definition publishVhosts :: "unit io" where
  "publishVhosts w =
     (if can_publish w
      then (Inr (), w\<lparr>durable := Some (state_vhosts w),
                         trace := trace w @ [Published (state_vhosts w)]\<rparr>)
      else (Inl (IOError ''ipfs.name.publish''), w))"

definition getVhosts :: "vhosts io" where
  "getVhosts w =
     (case refreshVhosts w of
        (Inl e, w1) \<Rightarrow> (Inl e, w1)
      | (Inr u, w1) \<Rightarrow> (Inr (state_vhosts w1), w1))"

text \<open>The result is \<open>null\<close> (\<open>None\<close>) or the object \<open>{ name, cid }\<close>.\<close>

definition getVhostByName :: "string \<Rightarrow> (string \<times> jsvalue) option io" where
  "getVhostByName name w =
     (case refreshVhosts w of
        (Inl e, w1) \<Rightarrow> (Inl e, w1)
      | (Inr u, w1) \<Rightarrow>
          (if \<not> truthy_value (obj_get (state_vhosts w1) name) then (Inr None, w1)
           else (Inr (Some (name, obj_get (state_vhosts w1) name)), w1)))"

definition addVhost :: "string \<Rightarrow> string \<Rightarrow> unit io" where
  "addVhost name cid w =
     (case refreshVhosts w of
        (Inl e, w1) \<Rightarrow> (Inl e, w1)
      | (Inr u, w1) \<Rightarrow> publishVhosts (w1\<lparr>state_vhosts := obj_set (state_vhosts w1) name cid\<rparr>))"

definition deleteVhostByName :: "string \<Rightarrow> unit io" where
  "deleteVhostByName name w =
     (case refreshVhosts w of
        (Inl e, w1) \<Rightarrow> (Inl e, w1)
      | (Inr u, w1) \<Rightarrow> publishVhosts (w1\<lparr>state_vhosts := obj_delete (state_vhosts w1) name\<rparr>))"

section \<open>Control plane\<close>

definition NAME_DENY_LIST :: "string list" where
  "NAME_DENY_LIST = [''api'', ''content'', ''localhost'']"

text \<open>\<open>try { return CID.isCID(new CID(str)) } catch (err) { return false }\<close>\<close>

definition isValidCID :: "'c lib \<Rightarrow> string \<Rightarrow> bool" where
  "isValidCID L str = (case new_CID L str of None \<Rightarrow> False | Some c \<Rightarrow> True)"

datatype body =
    Empty
  | ErrorBody string
  | VhostBody string jsvalue
  | VhostsBody "(string \<times> string) list"
  | Uncaught error   \<comment> \<open>the handler rejected; the framework answers 500\<close>

record response =
  status :: nat
  body :: body

definition uncaught :: "error \<Rightarrow> response" where
  "uncaught e = \<lparr> status = 500, body = Uncaught e \<rparr>"

text \<open>
  \<open>getVhostByName(name)\<close> called without \<open>await\<close> yields a promise. The promise is an
  object, so it is truthy whatever it settles to, and its value is never read. The call
  has started: \<open>ipfs.cat\<close> reads the durable record now, and the assignment to
  \<open>state.vhosts\<close> (or the rejection, which nothing handles) lands later, while the caller
  goes on. \<open>land\<close> is that landing, for the record as read. The promise holds it.
\<close>

definition land :: "vhosts option \<Rightarrow> world \<Rightarrow> world" where
  "land r w =
     (case r of
        None \<Rightarrow> w\<lparr>unhandled := unhandled w @ [IOError ''ipfs.cat'']\<rparr>
      | Some d \<Rightarrow> w\<lparr>state_vhosts := d, trace := trace w @ [Refreshed]\<rparr>)"

datatype promise = Promise "world \<Rightarrow> world"

definition truthy_promise :: "promise \<Rightarrow> bool" where
  "truthy_promise p = True"

definition call_without_await :: "string \<Rightarrow> world \<Rightarrow> promise" where
  "call_without_await name w = Promise (land (durable w))"

fun settle :: "promise \<Rightarrow> world \<Rightarrow> world" where
  "settle (Promise f) w = f w"

text \<open>
  When the started call lands, relative to the work the handler awaits: before it
  (\<open>Early\<close>), or after it (\<open>Late\<close>), where it overwrites the snapshot the handler has
  just written with the record as it was read. A landing at any other point has the effect
  of one of the two. The world a handler returns is the one in which the call has landed.
\<close>

datatype schedule = Early | Late

text \<open>
  The handlers take the request's \<open>name\<close> and \<open>cid\<close> as strings (a route parameter is
  one; a body field is taken to be one).
\<close>

definition list_handler :: "world \<Rightarrow> response \<times> world" where
  "list_handler w =
     (case getVhosts w of
        (Inl e, w1) \<Rightarrow> (uncaught e, w1)
      | (Inr vs, w1) \<Rightarrow> (\<lparr> status = 200, body = VhostsBody vs \<rparr>, w1))"

definition get_handler :: "string \<Rightarrow> world \<Rightarrow> response \<times> world" where
  "get_handler name w =
     (case getVhostByName name w of
        (Inl e, w1) \<Rightarrow> (uncaught e, w1)
      | (Inr None, w1) \<Rightarrow> (\<lparr> status = 404, body = ErrorBody ''not_found'' \<rparr>, w1)
      | (Inr (Some v), w1) \<Rightarrow> (\<lparr> status = 200, body = VhostBody (fst v) (snd v) \<rparr>, w1))"

definition post_handler :: "'c lib \<Rightarrow> string \<Rightarrow> string \<Rightarrow> world \<Rightarrow> response \<times> world" where
  "post_handler L name cid w =
     (if name \<in> set NAME_DENY_LIST
        then (\<lparr> status = 401, body = ErrorBody ''name_not_allowed'' \<rparr>, w)
      else if \<not> isValidCID L cid
        then (\<lparr> status = 400, body = ErrorBody ''invalid_cid'' \<rparr>, w)
      else
        (case addVhost name cid w of
           (Inl e, w1) \<Rightarrow> (uncaught e, w1)
         | (Inr u, w1) \<Rightarrow> (\<lparr> status = 201, body = Empty \<rparr>, w1)))"

definition put_handler :: "'c lib \<Rightarrow> schedule \<Rightarrow> string \<Rightarrow> string \<Rightarrow> world \<Rightarrow> response \<times> world" where
  "put_handler L sch name cid w =
     (let vhost = call_without_await name w in
      if \<not> truthy_promise vhost
        then (\<lparr> status = 404, body = ErrorBody ''not_found'' \<rparr>, settle vhost w)
      else if \<not> isValidCID L cid
        then (\<lparr> status = 400, body = ErrorBody ''invalid_cid'' \<rparr>, settle vhost w)
      else
        (case sch of
           Early \<Rightarrow>
             (case addVhost name cid (settle vhost w) of
                (Inl e, w2) \<Rightarrow> (uncaught e, w2)
              | (Inr u, w2) \<Rightarrow> (\<lparr> status = 201, body = Empty \<rparr>, w2))
         | Late \<Rightarrow>
             (case addVhost name cid w of
                (Inl e, w2) \<Rightarrow> (uncaught e, settle vhost w2)
              | (Inr u, w2) \<Rightarrow> (\<lparr> status = 201, body = Empty \<rparr>, settle vhost w2))))"

definition delete_handler :: "schedule \<Rightarrow> string \<Rightarrow> world \<Rightarrow> response \<times> world" where
  "delete_handler sch name w =
     (let vhost = call_without_await name w in
      if \<not> truthy_promise vhost
        then (\<lparr> status = 404, body = ErrorBody ''not_found'' \<rparr>, settle vhost w)
      else
        (case sch of
           Early \<Rightarrow>
             (case deleteVhostByName name (settle vhost w) of
                (Inl e, w2) \<Rightarrow> (uncaught e, w2)
              | (Inr u, w2) \<Rightarrow> (\<lparr> status = 200, body = Empty \<rparr>, w2))
         | Late \<Rightarrow>
             (case deleteVhostByName name w of
                (Inl e, w2) \<Rightarrow> (uncaught e, settle vhost w2)
              | (Inr u, w2) \<Rightarrow> (\<lparr> status = 200, body = Empty \<rparr>, settle vhost w2))))"

text \<open>
  A run of the control plane: the five operations (update and delete with the schedule of
  the call they start), and the tick of the background timer
  (\<open>setInterval(refreshVhosts, 10000)\<close>), whose rejection nothing handles. A rejection
  that nothing handles ends the process, so a run handles requests until there is one.
\<close>

datatype request =
    ListVhosts
  | GetVhost string
  | CreateVhost string string
  | UpdateVhost schedule string string
  | DeleteVhost schedule string
  | Tick

fun handle :: "'c lib \<Rightarrow> request \<Rightarrow> world \<Rightarrow> world" where
  "handle L ListVhosts w = snd (list_handler w)"
| "handle L (GetVhost name) w = snd (get_handler name w)"
| "handle L (CreateVhost name cid) w = snd (post_handler L name cid w)"
| "handle L (UpdateVhost sch name cid) w = snd (put_handler L sch name cid w)"
| "handle L (DeleteVhost sch name) w = snd (delete_handler sch name w)"
| "handle L Tick w = land (durable w) w"

fun run :: "'c lib \<Rightarrow> request list \<Rightarrow> world \<Rightarrow> world" where
  "run L [] w = w"
| "run L (r # rs) w = (if unhandled w \<noteq> [] then w else run L rs (handle L r w))"

section \<open>Shutdown\<close>

text \<open>
  What a signal handler acts on: the refresh timer, the listening server, the forwarder
  and the exit code (\<open>None\<close> while the process runs). \<open>shutdown\<close> calls a function by
  a name it does not declare, so the name is looked up in the global scope; of the globals,
  the one that acts on this state is \<open>clearInterval\<close>. Calling a name that is not defined
  throws a \<open>ReferenceError\<close>.
\<close>

record process =
  timer_active :: bool
  server_listening :: bool
  forwarder_open :: bool
  exit_code :: "nat option"

definition global_function :: "string \<Rightarrow> (process \<Rightarrow> process) option" where
  "global_function f =
     (if f = ''clearInterval'' then Some (\<lambda>p. p\<lparr>timer_active := False\<rparr>) else None)"

definition call_global :: "string \<Rightarrow> process \<Rightarrow> (error + unit) \<times> process" where
  "call_global f p =
     (case global_function f of
        None \<Rightarrow> (Inl (ReferenceError (f @ '' is not defined'')), p)
      | Some g \<Rightarrow> (Inr (), g p))"

text \<open>
  \<open>clearInterva(refreshInterval); server.close(() => proxy.close(() => process.exit(128 + value)))\<close>
\<close>

definition shutdown :: "string \<Rightarrow> nat \<Rightarrow> process \<Rightarrow> (error + unit) \<times> process" where
  "shutdown signal value p =
     (case call_global ''clearInterva'' p of
        (Inl e, p1) \<Rightarrow> (Inl e, p1)
      | (Inr u, p1) \<Rightarrow>
          (Inr (), p1\<lparr>server_listening := False, forwarder_open := False,
                        exit_code := Some (128 + value)\<rparr>))"

section \<open>A concrete instance of the libraries\<close>

text \<open>
  Used where a statement is evaluated at a concrete input. \<open>sample_isIP\<close> recognises
  dotted-quad IPv4 addresses, which \<open>is-ip\<close> accepts. \<open>sample_lib\<close> knows the two CIDs of
  the program's initial \<open>state.vhosts\<close>: \<open>hello_cid\<close> is version 1 in base32,
  \<open>alexa_cid\<close> is version 0 in base58btc.
\<close>

fun split_on :: "char \<Rightarrow> string \<Rightarrow> string list" where
  "split_on sep [] = [[]]"
| "split_on sep (c # cs) =
     (if c = sep then [] # split_on sep cs
      else (case split_on sep cs of [] \<Rightarrow> [[c]] | p # ps \<Rightarrow> (c # p) # ps))"

definition is_ipv4_part :: "string \<Rightarrow> bool" where
  "is_ipv4_part s =
     (s \<noteq> [] \<and> list_all is_digit s \<and> (if hd s = CHR ''0'' then s = ''0'' else True)
      \<and> index_value s \<le> 255)"

definition sample_isIP :: "string \<Rightarrow> bool" where
  "sample_isIP s = (length (split_on CHR ''.'' s) = 4 \<and> list_all is_ipv4_part (split_on CHR ''.'' s))"

definition hello_cid :: string where
  "hello_cid = ''bafybeictjmxvlw7xuzubam2wuzjruwknbdmnprehzlliba4azjhan7f2fa''"

definition alexa_cid :: string where
  "alexa_cid = ''QmUZLYaz4tPP61PBVRXAz8awzrPpauHkXRjseQu6TsKgrr''"

definition alexa_cid_v1 :: string where
  "alexa_cid_v1 = ''bafybeic4myreejzgwrivmoc67qtbqucesfhs7hdfzplklmtaxz6ctn7ug4''"

definition sample_lib :: "string lib" where
  "sample_lib =
     \<lparr> isIP = sample_isIP,
       new_CID = (\<lambda>s. if s = hello_cid \<or> s = alexa_cid \<or> s = alexa_cid_v1 then Some s else None),
       cid_version = (\<lambda>c. if c = alexa_cid then 0 else 1),
       cid_multibaseName = (\<lambda>c. if c = alexa_cid then ''base58btc'' else ''base32''),
       cid_toString = (\<lambda>c. c),
       cid_toV1_base32 = (\<lambda>c. if c = alexa_cid then alexa_cid_v1 else c) \<rparr>"

definition ip_gateway :: gateway where
  "ip_gateway = \<lparr> gw_hostname = ''127.0.0.1'', gw_host = ''127.0.0.1:8080'' \<rparr>"

definition dns_gateway :: gateway where
  "dns_gateway = \<lparr> gw_hostname = ''gw.example.com'', gw_host = ''gw.example.com'' \<rparr>"

section \<open>Definitions used in the statements\<close>

text \<open>
  A character that the pattern syntax reads as itself, and a name made of such characters.
\<close>

definition plain_char :: "char \<Rightarrow> bool" where
  "plain_char c = (c \<notin> set ''()|*+?^$.[]{}'' \<and> c \<noteq> CHR 0x5C)"

definition plain :: "string \<Rightarrow> bool" where
  "plain s = list_all plain_char s"

definition literals :: "string \<Rightarrow> (rx \<times> tkind) list" where
  "literals s = map (\<lambda>c. (RChar c, Atom)) s"

text \<open>What \<open>^/key($|/)\<close> compiles to when the key is plain.\<close>

definition tail_rx :: rx where
  "tail_rx = RSeq (RGroup (RAlt (RSeq REol REmpty) (RSeq (RChar CHR ''/'') REmpty))) REmpty"

definition key_rx :: "string \<Rightarrow> rx" where
  "key_rx key = RSeq RBol (RSeq (RChar CHR ''/'') (foldr RSeq (map RChar key) tail_rx))"

text \<open>The path is \<open>/key\<close> or starts with \<open>/key/\<close>.\<close>

definition on_path :: "string \<Rightarrow> string \<Rightarrow> bool" where
  "on_path key pathName = (pathName = CHR ''/'' # key \<or> prefix (CHR ''/'' # key @ ''/'') pathName)"

text \<open>Every CID of a snapshot, and of the world's snapshot and durable record, passes \<open>isValidCID\<close>.\<close>

definition all_valid :: "'c lib \<Rightarrow> vhosts \<Rightarrow> bool" where
  "all_valid L vh = list_all (\<lambda>e. isValidCID L (snd e)) vh"

definition world_cids_valid :: "'c lib \<Rightarrow> world \<Rightarrow> bool" where
  "world_cids_valid L w =
     (all_valid L (state_vhosts w) \<and> (case durable w of None \<Rightarrow> True | Some d \<Rightarrow> all_valid L d))"

text \<open>The snapshot holds no CID for a name: no entry, or an entry whose value is falsy.\<close>

definition cid_absent :: "vhosts \<Rightarrow> string \<Rightarrow> bool" where
  "cid_absent vh name = (\<not> truthy_value (obj_get vh name))"


text \<open>Worlds and a process for the concrete evaluations.\<close>

definition empty_world :: world where
  "empty_world =
     \<lparr> state_vhosts = [], durable = Some [], can_publish = True, trace = [], unhandled = [] \<rparr>"

definition reserved_world :: world where
  "reserved_world =
     \<lparr> state_vhosts = [(''api'', alexa_cid)], durable = Some [(''api'', alexa_cid)],
       can_publish = True, trace = [], unhandled = [] \<rparr>"

definition two_vhosts :: vhosts where
  "two_vhosts = [(''a'', hello_cid), (''b'', alexa_cid)]"

definition running :: process where
  "running = \<lparr> timer_active = True, server_listening = True, forwarder_open = True,
                exit_code = None \<rparr>"

section \<open>The pattern of a plain name\<close>

lemma parse_rx_plain:
  "plain s \<Longrightarrow> parse_rx f fs (s @ rest) = parse_rx (fst f, rev (literals s) @ snd f) fs rest"
proof (induction s arbitrary: f)
  case Nil
  then show ?case by (simp add: literals_def)
next
  case (Cons c s)
  then have pc: "plain_char c" and ps: "plain s" by (simp_all add: plain_def)
  have "parse_rx f fs ((c # s) @ rest) = parse_rx (fst f, (RChar c, Atom) # snd f) fs (s @ rest)"
    using pc by (simp add: plain_char_def)
  also have "\<dots> = parse_rx (fst f, rev (literals s) @ (RChar c, Atom) # snd f) fs rest"
    using Cons.IH[OF ps] by simp
  finally show ?case by (simp add: literals_def)
qed

lemma new_RegExp_plain:
  assumes "plain key"
  shows "new_RegExp (CHR ''^'' # CHR ''/'' # key @ ''($|/)'') = Inr (key_rx key)"
proof -
  have "new_RegExp (CHR ''^'' # CHR ''/'' # key @ ''($|/)'')
        = parse_rx ([], [(RChar CHR ''/'', Atom), (RBol, Assertion)]) [] (key @ ''($|/)'')"
    by (simp add: new_RegExp_def)
  also have "\<dots> = parse_rx ([], rev (literals key) @ [(RChar CHR ''/'', Atom), (RBol, Assertion)]) [] ''($|/)''"
    using parse_rx_plain[OF assms] by simp
  also have "\<dots> = Inr (key_rx key)"
    by (simp add: alt_of_def seq_of_def key_rx_def tail_rx_def literals_def comp_def)
  finally show ?thesis .
qed

lemma ends_literals:
  "ends (foldr RSeq (map RChar key) r) (b, s) =
     (if prefix key s then ends r (b \<and> key = [], drop (length key) s) else [])"
proof (induction key arbitrary: b s)
  case Nil
  then show ?case by simp
next
  case (Cons c key)
  show ?case
  proof (cases s)
    case Nil
    then show ?thesis by simp
  next
    case (Cons x xs)
    then show ?thesis using Cons.IH[of False xs] by simp
  qed
qed

lemma ends_tail: "ends tail_rx (b, s) \<noteq> [] \<longleftrightarrow> (s = [] \<or> hd s = CHR ''/'')"
  by (cases s) (simp_all add: tail_rx_def)

lemma ends_key_rx_not_start: "ends (key_rx key) (False, s) = []"
  by (simp add: key_rx_def)

lemma label_boundary:
  "(prefix key xs \<and> (drop (length key) xs = [] \<or> hd (drop (length key) xs) = CHR ''/''))
     \<longleftrightarrow> (xs = key \<or> prefix (key @ ''/'') xs)"
proof
  assume a: "prefix key xs \<and> (drop (length key) xs = [] \<or> hd (drop (length key) xs) = CHR ''/'')"
  then obtain r where r: "xs = key @ r" by (auto simp: prefix_def)
  with a have "r = [] \<or> hd r = CHR ''/''" by simp
  then show "xs = key \<or> prefix (key @ ''/'') xs"
    using r by (cases r) auto
next
  assume "xs = key \<or> prefix (key @ ''/'') xs"
  then show "prefix key xs \<and> (drop (length key) xs = [] \<or> hd (drop (length key) xs) = CHR ''/'')"
    by (auto simp: prefix_def)
qed

lemma ends_key_rx_start: "ends (key_rx key) (True, s) \<noteq> [] \<longleftrightarrow> on_path key s"
proof (cases s)
  case Nil
  then show ?thesis by (simp add: key_rx_def on_path_def)
next
  case (Cons x xs)
  have "ends (key_rx key) (True, s) =
          (if x = CHR ''/'' then ends (foldr RSeq (map RChar key) tail_rx) (False, xs) else [])"
    using Cons by (simp add: key_rx_def)
  also have "\<dots> = (if x = CHR ''/'' \<and> prefix key xs
                     then ends tail_rx (False, drop (length key) xs) else [])"
    by (simp add: ends_literals)
  finally have "ends (key_rx key) (True, s) \<noteq> [] \<longleftrightarrow>
      (x = CHR ''/'' \<and> prefix key xs \<and>
       (drop (length key) xs = [] \<or> hd (drop (length key) xs) = CHR ''/''))"
    using ends_tail by auto
  then show ?thesis using Cons label_boundary[of key xs] by (auto simp: on_path_def)
qed

lemma matches_key_rx: "matches (key_rx key) s \<longleftrightarrow> on_path key s"
proof -
  have "matches (key_rx key) s \<longleftrightarrow>
          (\<exists>i \<in> set [0..<Suc (length s)]. ends (key_rx key) (i = 0, drop i s) \<noteq> [])"
    by (simp add: matches_def list_ex_iff)
  also have "\<dots> \<longleftrightarrow> ends (key_rx key) (True, s) \<noteq> []"
  proof
    assume "\<exists>i \<in> set [0..<Suc (length s)]. ends (key_rx key) (i = 0, drop i s) \<noteq> []"
    then obtain i where i: "ends (key_rx key) (i = 0, drop i s) \<noteq> []" by blast
    then have "i = 0" using ends_key_rx_not_start by (cases "i = 0") auto
    with i show "ends (key_rx key) (True, s) \<noteq> []" by simp
  next
    assume "ends (key_rx key) (True, s) \<noteq> []"
    then have "ends (key_rx key) (0 = (0::nat), drop 0 s) \<noteq> []" by simp
    moreover have "(0::nat) \<in> set [0..<Suc (length s)]" by simp
    ultimately show "\<exists>i \<in> set [0..<Suc (length s)]. ends (key_rx key) (i = 0, drop i s) \<noteq> []"
      by blast
  qed
  finally show ?thesis using ends_key_rx_start by simp
qed

text \<open>
  Among plain names the scan is the one the specification describes: the first name, in
  key order, that the path is on.
\<close>

lemma find_key_plain:
  "list_all plain keys \<Longrightarrow> find_key keys pathName = Inr (find (\<lambda>key. on_path key pathName) keys)"
  by (induction keys) (simp_all add: new_RegExp_plain matches_key_rx)

text \<open>Whatever the snapshot holds, the path \<open>/ab\<close> is never resolved to the name \<open>a\<close>.\<close>

lemma find_key_ab: "find_key keys ''/ab'' \<noteq> Inr (Some ''a'')"
proof (induction keys)
  case Nil
  then show ?case by simp
next
  case (Cons key keys)
  show ?case
  proof (cases "key = ''a''")
    case True
    have "plain ''a''" by (simp add: plain_def plain_char_def)
    then have "new_RegExp (CHR ''^'' # CHR ''/'' # ''a'' @ ''($|/)'') = Inr (key_rx ''a'')"
      by (rule new_RegExp_plain)
    moreover have "\<not> matches (key_rx ''a'') ''/ab''" by (simp add: matches_key_rx on_path_def)
    ultimately show ?thesis using True Cons by simp
  next
    case False
    then show ?thesis using Cons by (auto split: sum.splits)
  qed
qed

section \<open>The CIDs of the registry stay valid\<close>

lemma all_valid_insert_index:
  "all_valid L vh \<Longrightarrow> isValidCID L c \<Longrightarrow> all_valid L (insert_index k c vh)"
  by (induction vh) (auto simp: all_valid_def)

lemma all_valid_obj_set:
  "all_valid L vh \<Longrightarrow> isValidCID L c \<Longrightarrow> all_valid L (obj_set vh k c)"
  unfolding obj_set_def using all_valid_insert_index[of L vh c k]
  by (auto simp: all_valid_def list_all_iff)

lemma all_valid_obj_delete: "all_valid L vh \<Longrightarrow> all_valid L (obj_delete vh k)"
  by (auto simp: all_valid_def obj_delete_def list_all_iff)

lemma refresh_valid: "world_cids_valid L w \<Longrightarrow> world_cids_valid L (snd (refreshVhosts w))"
  by (auto simp: world_cids_valid_def refreshVhosts_def split: option.splits)

lemma publish_valid: "world_cids_valid L w \<Longrightarrow> world_cids_valid L (snd (publishVhosts w))"
  by (auto simp: world_cids_valid_def publishVhosts_def split: option.splits)

lemma set_valid:
  "world_cids_valid L w \<Longrightarrow> all_valid L vh \<Longrightarrow> world_cids_valid L (w\<lparr>state_vhosts := vh\<rparr>)"
  by (auto simp: world_cids_valid_def)

lemma state_valid: "world_cids_valid L w \<Longrightarrow> all_valid L (state_vhosts w)"
  by (simp add: world_cids_valid_def)

text \<open>A landing keeps the CIDs valid when the record it was read from is.\<close>

lemma land_valid:
  "world_cids_valid L w \<Longrightarrow> world_cids_valid L w0 \<Longrightarrow> world_cids_valid L (land (durable w0) w)"
  by (auto simp: world_cids_valid_def land_def split: option.splits)

lemma settle_valid:
  "world_cids_valid L w \<Longrightarrow> world_cids_valid L w0 \<Longrightarrow>
     world_cids_valid L (settle (call_without_await n w0) w)"
  by (simp add: call_without_await_def land_valid)

lemma getVhostByName_valid:
  "world_cids_valid L w \<Longrightarrow> world_cids_valid L (snd (getVhostByName n w))"
  using refresh_valid[of L w]
  by (auto simp: getVhostByName_def split: prod.splits sum.splits option.splits)

lemma getVhosts_valid: "world_cids_valid L w \<Longrightarrow> world_cids_valid L (snd (getVhosts w))"
  using refresh_valid[of L w]
  by (auto simp: getVhosts_def split: prod.splits sum.splits option.splits)

lemma addVhost_valid:
  assumes "world_cids_valid L w" "isValidCID L c"
  shows "world_cids_valid L (snd (addVhost n c w))"
proof (cases "refreshVhosts w")
  case (Pair r w1)
  have v1: "world_cids_valid L w1" using refresh_valid[OF assms(1)] Pair by simp
  show ?thesis
  proof (cases r)
    case (Inl e)
    then show ?thesis using Pair v1 by (simp add: addVhost_def)
  next
    case (Inr u)
    have "world_cids_valid L (w1\<lparr>state_vhosts := obj_set (state_vhosts w1) n c\<rparr>)"
      by (rule set_valid[OF v1 all_valid_obj_set[OF state_valid[OF v1] assms(2)]])
    then show ?thesis using Pair Inr publish_valid by (simp add: addVhost_def)
  qed
qed

lemma deleteVhostByName_valid:
  assumes "world_cids_valid L w"
  shows "world_cids_valid L (snd (deleteVhostByName n w))"
proof (cases "refreshVhosts w")
  case (Pair r w1)
  have v1: "world_cids_valid L w1" using refresh_valid[OF assms(1)] Pair by simp
  show ?thesis
  proof (cases r)
    case (Inl e)
    then show ?thesis using Pair v1 by (simp add: deleteVhostByName_def)
  next
    case (Inr u)
    have "world_cids_valid L (w1\<lparr>state_vhosts := obj_delete (state_vhosts w1) n\<rparr>)"
      by (rule set_valid[OF v1 all_valid_obj_delete[OF state_valid[OF v1]]])
    then show ?thesis using Pair Inr publish_valid by (simp add: deleteVhostByName_def)
  qed
qed

lemma post_valid: "world_cids_valid L w \<Longrightarrow> world_cids_valid L (snd (post_handler L n c w))"
  using addVhost_valid[of L w c n]
  by (auto simp: post_handler_def split: prod.splits sum.splits)

lemma put_valid:
  assumes "world_cids_valid L w"
  shows "world_cids_valid L (snd (put_handler L sch n c w))"
proof -
  let ?p = "call_without_await n w"
  have s: "world_cids_valid L (settle ?p w)" by (rule settle_valid[OF assms assms])
  show ?thesis
  proof (cases "isValidCID L c")
    case False
    then show ?thesis using s by (simp add: put_handler_def truthy_promise_def Let_def)
  next
    case True
    show ?thesis
    proof (cases sch)
      case Early
      then show ?thesis
        using True addVhost_valid[OF s True, of n]
        by (auto simp: put_handler_def truthy_promise_def Let_def split: prod.splits sum.splits)
    next
      case Late
      have "world_cids_valid L (settle ?p (snd (addVhost n c w)))"
        by (rule settle_valid[OF addVhost_valid[OF assms True] assms])
      then show ?thesis
        using True Late
        by (auto simp: put_handler_def truthy_promise_def Let_def split: prod.splits sum.splits)
    qed
  qed
qed

lemma delete_valid:
  assumes "world_cids_valid L w"
  shows "world_cids_valid L (snd (delete_handler sch n w))"
proof -
  let ?p = "call_without_await n w"
  have s: "world_cids_valid L (settle ?p w)" by (rule settle_valid[OF assms assms])
  show ?thesis
  proof (cases sch)
    case Early
    then show ?thesis
      using deleteVhostByName_valid[OF s, of n]
      by (auto simp: delete_handler_def truthy_promise_def Let_def split: prod.splits sum.splits)
  next
    case Late
    have "world_cids_valid L (settle ?p (snd (deleteVhostByName n w)))"
      by (rule settle_valid[OF deleteVhostByName_valid[OF assms] assms])
    then show ?thesis
      using Late
      by (auto simp: delete_handler_def truthy_promise_def Let_def split: prod.splits sum.splits)
  qed
qed

lemma list_valid: "world_cids_valid L w \<Longrightarrow> world_cids_valid L (snd (list_handler w))"
  using getVhosts_valid[of L w]
  by (auto simp: list_handler_def split: prod.splits sum.splits)

lemma get_valid: "world_cids_valid L w \<Longrightarrow> world_cids_valid L (snd (get_handler n w))"
  using getVhostByName_valid[of L w n]
  by (auto simp: get_handler_def split: prod.splits sum.splits option.splits)

lemma handle_valid: "world_cids_valid L w \<Longrightarrow> world_cids_valid L (handle L r w)"
  by (cases r) (simp_all add: list_valid get_valid post_valid put_valid delete_valid land_valid)

section \<open>A request through the proxy\<close>






section \<open>The specification's properties, against the program\<close>

text \<open>
  C1. The specification has \<open>delete\<close> signal "not found" (404, \<open>not_found\<close>) for a name
  that is absent, without removing or publishing. The handler tests the promise of
  \<open>getVhostByName\<close>, not its value, so the test never fails: for the absent name
  \<open>ghost\<close> and an empty registry it goes on to \<open>deleteVhostByName\<close>, publishes the
  unchanged mapping and answers 200, whenever the call it started lands.
\<close>

theorem delete_absent_name_answers_200:
  "delete_handler Early ''ghost'' empty_world =
     (\<lparr> status = 200, body = Empty \<rparr>,
      empty_world\<lparr>trace := [Refreshed, Refreshed, Published []]\<rparr>) \<and>
   delete_handler Late ''ghost'' empty_world =
     (\<lparr> status = 200, body = Empty \<rparr>,
      empty_world\<lparr>trace := [Refreshed, Published [], Refreshed]\<rparr>)"
  by (simp add: delete_handler_def call_without_await_def truthy_promise_def land_def
      deleteVhostByName_def refreshVhosts_def publishVhosts_def obj_delete_def empty_world_def)

text \<open>For every name, world and schedule, the 404 branch of \<open>delete\<close> is never taken.\<close>

lemma delete_never_not_found: "status (fst (delete_handler sch name w)) \<noteq> 404"
  by (cases sch)
     (simp_all add: delete_handler_def truthy_promise_def uncaught_def Let_def
       split: prod.splits sum.splits)

text \<open>
  C2, as stated: \<open>update\<close> validates as \<open>create\<close> does, rejecting a reserved name with
  "forbidden". It does not: where the registry holds the reserved name \<open>api\<close>, \<open>create\<close>
  answers 401 and \<open>update\<close> answers 201 for the same name and CID.
\<close>

theorem update_reserved_name_counterexample:
  "''api'' \<in> set NAME_DENY_LIST \<and>
   status (fst (post_handler sample_lib ''api'' hello_cid reserved_world)) = 401 \<and>
   fst (put_handler sample_lib Early ''api'' hello_cid reserved_world) =
     \<lparr> status = 201, body = Empty \<rparr> \<and>
   fst (put_handler sample_lib Late ''api'' hello_cid reserved_world) =
     \<lparr> status = 201, body = Empty \<rparr>"
  by (simp add: NAME_DENY_LIST_def post_handler_def put_handler_def call_without_await_def
      truthy_promise_def land_def addVhost_def refreshVhosts_def publishVhosts_def
      isValidCID_def sample_lib_def reserved_world_def hello_cid_def alexa_cid_def
      obj_set_def obj_keys_def)

text \<open>
  C2, amended: for every name and CID, \<open>update\<close> rejects a CID that fails \<open>isValidCID\<close>
  with "bad request" (400, \<open>invalid_cid\<close>) before any upsert or publish: the durable record
  is untouched and the snapshot is at most refreshed. It has no check of the reserved names
  and never answers 401.
\<close>

theorem update_rejects_invalid_cid_only:
  "(\<not> isValidCID L cid \<longrightarrow>
      fst (put_handler L sch name cid w) = \<lparr> status = 400, body = ErrorBody ''invalid_cid'' \<rparr> \<and>
      durable (snd (put_handler L sch name cid w)) = durable w \<and>
      state_vhosts (snd (put_handler L sch name cid w)) =
        (case durable w of None \<Rightarrow> state_vhosts w | Some d \<Rightarrow> d) \<and>
      trace (snd (put_handler L sch name cid w)) =
        trace w @ (case durable w of None \<Rightarrow> [] | Some d \<Rightarrow> [Refreshed])) \<and>
   status (fst (put_handler L sch name cid w)) \<noteq> 401"
proof -
  have a: "status (fst (put_handler L sch name cid w)) \<noteq> 401"
    by (cases sch)
       (simp_all add: put_handler_def truthy_promise_def uncaught_def Let_def
         split: prod.splits sum.splits)
  have c: "\<not> isValidCID L cid \<Longrightarrow>
      put_handler L sch name cid w =
        (\<lparr> status = 400, body = ErrorBody ''invalid_cid'' \<rparr>, land (durable w) w)"
    by (simp add: put_handler_def call_without_await_def truthy_promise_def)
  show ?thesis using a c by (auto simp: land_def split: option.splits)
qed

theorem update_rejects_invalid_cid_only_witness:
  "\<not> isValidCID sample_lib ''junk'' \<and>
   put_handler sample_lib Early ''api'' ''junk'' reserved_world =
     (\<lparr> status = 400, body = ErrorBody ''invalid_cid'' \<rparr>, reserved_world\<lparr>trace := [Refreshed]\<rparr>)"
proof -
  have v: "\<not> isValidCID sample_lib ''junk''"
    by (simp add: isValidCID_def sample_lib_def hello_cid_def alexa_cid_def alexa_cid_v1_def)
  have e: "snd (put_handler sample_lib Early ''api'' ''junk'' reserved_world) =
             reserved_world\<lparr>trace := [Refreshed]\<rparr>"
    by (simp add: put_handler_def call_without_await_def truthy_promise_def v land_def
        reserved_world_def)
  show ?thesis
    using update_rejects_invalid_cid_only[of sample_lib "''junk''" Early "''api''" reserved_world] v e
    by (simp add: prod_eq_iff)
qed

text \<open>
  C3, as stated: starting from a snapshot without an empty name, no run of the control
  plane puts an entry with an empty name into the snapshot. One does: \<open>create\<close> with the
  empty name and a valid CID, on the empty registry.
\<close>

theorem create_empty_name_counterexample:
  "state_vhosts empty_world = [] \<and>
   state_vhosts (run sample_lib [CreateVhost [] hello_cid] empty_world) = [([], hello_cid)]"
  by (simp add: empty_world_def post_handler_def NAME_DENY_LIST_def isValidCID_def sample_lib_def
      addVhost_def refreshVhosts_def publishVhosts_def obj_set_def obj_keys_def is_array_index_def)

text \<open>
  C3, amended: for every run of control-plane operations and background refreshes that
  starts where every CID of the snapshot and of the durable record passes \<open>isValidCID\<close>,
  every CID of the snapshot (and of the durable record) passes it afterwards. Names are not
  checked for emptiness.
\<close>

theorem control_plane_keeps_cids_valid:
  "world_cids_valid L w \<Longrightarrow> world_cids_valid L (run L rs w)"
  by (induction rs arbitrary: w) (simp_all add: handle_valid)

theorem control_plane_keeps_cids_valid_witness:
  "world_cids_valid sample_lib empty_world \<and>
   world_cids_valid sample_lib
     (run sample_lib
        [CreateVhost [] hello_cid, UpdateVhost Late ''x'' alexa_cid, UpdateVhost Early ''x'' ''junk'',
         DeleteVhost Late ''ghost'', Tick]
        empty_world)"
  using control_plane_keeps_cids_valid[of sample_lib empty_world
      "[CreateVhost [] hello_cid, UpdateVhost Late ''x'' alexa_cid, UpdateVhost Early ''x'' ''junk'',
        DeleteVhost Late ''ghost'', Tick]"]
  by (simp add: world_cids_valid_def empty_world_def all_valid_def)



text \<open>
  The branch at line 267 on its own: were the handler to read a Host that resolves to an
  entry without a CID, with a gateway addressed by IP, it would leave a null path. The two
  other branches test what they assign.
\<close>

lemma untested_branch_yields_null:
  "proxyReq_handler sample_lib ip_gateway [(''a'', [])] (Some ''a.example.com'') ''/x'' = Inr None"
  by (simp add: proxyReq_handler_def getCIDKeyFromHost_def sample_lib_def sample_isIP_def
      is_ipv4_part_def is_digit_def index_value_def obj_keys_def truthy_def
      isTargetSubdomainsSupported_def ip_gateway_def getIPFSPathFromCIDKey_def obj_get_def)

lemma request_to_entry_without_cid_passes:
  "forward_request sample_lib ip_gateway [(''a'', [])] [(''a'', [])] (Some ''a.example.com'') ''/x'' =
     Inr \<lparr> out_host = ''127.0.0.1:8080'', out_path = Some ''/x'' \<rparr>"
  by (simp add: forward_request_def fallback_handler_def proxyReq_handler_def
      getCIDKeyFromHost_def sample_lib_def sample_isIP_def is_ipv4_part_def is_digit_def
      index_value_def obj_keys_def truthy_def isTargetSubdomainsSupported_def ip_gateway_def
      getIPFSPathFromPath_def getCIDKeyFromPath_def new_RegExp_def matches_def seq_of_def
      alt_of_def replaceIPFSPath_def obj_get_def Object_prototype_names_def)

text \<open>
  C5. The specification has the shutdown routine cancel the refresh timer without an
  error and then close the server and the forwarder. \<open>shutdown\<close> calls \<open>clearInterva\<close>,
  which is not defined: for every signal it throws a \<open>ReferenceError\<close> before anything is
  cancelled or closed.
\<close>

theorem shutdown_throws:
  "shutdown signal value p = (Inl (ReferenceError ''clearInterva is not defined''), p)"
  by (simp add: shutdown_def call_global_def global_function_def)

text \<open>
  C6. The specification has a request with Host \<open>a.example.com\<close> and path
  \<open>/b/index.html\<close> rewritten by the vhost \<open>a\<close> alone. The \<open>proxyReq\<close> handler tests the
  host first, but the Host it reads is the target's, which resolves to no vhost, so it goes
  on to the path: the outgoing path is rewritten by the vhost \<open>b\<close>, for a gateway without
  subdomain support and for one with it (where the host is rewritten by \<open>a\<close> as well).
\<close>

theorem host_loses_to_path:
  "forward_request sample_lib ip_gateway two_vhosts two_vhosts (Some ''a.example.com'')
       ''/b/index.html'' =
     Inr \<lparr> out_host = ''127.0.0.1:8080'',
           out_path = Some (''/ipfs/'' @ alexa_cid @ ''/index.html'') \<rparr> \<and>
   forward_request sample_lib dns_gateway two_vhosts two_vhosts (Some ''a.example.com'')
       ''/b/index.html'' =
     Inr \<lparr> out_host = hello_cid @ ''.ipfs.gw.example.com'',
           out_path = Some (''/ipfs/'' @ alexa_cid @ ''/index.html'') \<rparr>"
proof -
  have k: "getCIDKeyFromHost sample_lib two_vhosts (Some ''a.example.com'') = Inr (Some ''a'')"
    by (simp add: getCIDKeyFromHost_def sample_lib_def sample_isIP_def obj_keys_def two_vhosts_def)
  have g: "\<not> isTargetSubdomainsSupported sample_lib ip_gateway"
          "isTargetSubdomainsSupported sample_lib dns_gateway"
    by (simp_all add: isTargetSubdomainsSupported_def sample_lib_def sample_isIP_def
        is_ipv4_part_def is_digit_def index_value_def ip_gateway_def dns_gateway_def)
  have f1: "fallback_handler sample_lib ip_gateway two_vhosts (Some ''a.example.com'') =
              Inr \<lparr> target_host = ''127.0.0.1:8080'', host_header = Some ''a.example.com'' \<rparr>"
    using k g(1) by (simp add: fallback_handler_def ip_gateway_def truthy_def)
  have f2: "fallback_handler sample_lib dns_gateway two_vhosts (Some ''a.example.com'') =
              Inr \<lparr> target_host = hello_cid @ ''.ipfs.gw.example.com'',
                    host_header = Some (hello_cid @ ''.ipfs.gw.example.com'') \<rparr>"
    using k g(2)
    by (simp add: fallback_handler_def getIPFSHostFromCIDKey_def obj_get_def two_vhosts_def
        truthy_def sample_lib_def dns_gateway_def hello_cid_def alexa_cid_def)
  have o1: "getCIDKeyFromHost sample_lib two_vhosts (Some ''127.0.0.1:8080'') = Inr None"
    by (simp add: getCIDKeyFromHost_def sample_lib_def sample_isIP_def is_ipv4_part_def
        is_digit_def index_value_def)
  have o2: "getCIDKeyFromHost sample_lib two_vhosts (Some (hello_cid @ ''.ipfs.gw.example.com'')) =
              Inr None"
    by (simp add: getCIDKeyFromHost_def sample_lib_def sample_isIP_def obj_keys_def two_vhosts_def
        hello_cid_def)
  have p: "getIPFSPathFromPath two_vhosts ''/b/index.html'' =
             Inr (Some (''/ipfs/'' @ alexa_cid @ ''/index.html''))"
    by (simp add: getIPFSPathFromPath_def getCIDKeyFromPath_def two_vhosts_def obj_keys_def
        new_RegExp_def matches_def seq_of_def alt_of_def truthy_def replaceIPFSPath_def
        obj_get_def js_replace_def alexa_cid_def)
  show ?thesis
    using f1 f2 o1 o2 p by (simp add: forward_request_def proxyReq_handler_def truthy_def)
qed

text \<open>
  The host-first test of the \<open>proxyReq\<close> handler, on its own: were it to read the Host
  \<open>a.example.com\<close>, it would rewrite by the name \<open>a\<close> and leave the path-based branch out.
\<close>

lemma proxyReq_handler_tests_host_first:
  assumes "a \<in> set (obj_keys vh)" and "a \<noteq> []"
      and "CHR ''.'' \<notin> set a" and "CHR '':'' \<notin> set a"
      and "\<not> isIP L (a @ ''.example.com'')"
  shows "proxyReq_handler L gw vh (Some (a @ ''.example.com'')) path =
           Inr (if isTargetSubdomainsSupported L gw then Some path
                else getIPFSPathFromCIDKey vh path (Some a))"
proof -
  have nc: "\<forall>x \<in> set a. x \<noteq> CHR '':''" and nd: "\<forall>x \<in> set a. x \<noteq> CHR ''.''"
    using assms(3) assms(4) by auto
  have h: "takeWhile (\<lambda>c. c \<noteq> CHR '':'') (a @ ''.example.com'') = a @ ''.example.com''"
    using nc by (simp add: takeWhile_append2)
  have s: "takeWhile (\<lambda>c. c \<noteq> CHR ''.'') (a @ ''.example.com'') = a"
    using nd by (simp add: takeWhile_append2)
  have k: "getCIDKeyFromHost L vh (Some (a @ ''.example.com'')) = Inr (Some a)"
    unfolding getCIDKeyFromHost_def using h s assms(1) assms(5) by (simp add: Let_def)
  show ?thesis
    using k assms(2) by (simp add: proxyReq_handler_def truthy_def)
qed

text \<open>
  C7, as stated: a path resolves to a name exactly when it is \<open>/name\<close> or starts with
  \<open>/name/\<close>. Two ways it does not. The name is put into the pattern unescaped, so a name
  that holds pattern syntax is matched as a pattern: \<open>/ab\<close> resolves to the name \<open>a.\<close>,
  though it is neither \<open>/a.\<close> nor starts with \<open>/a./\<close>. And the scan stops at the first
  name that matches: with the names \<open>a/b\<close> and \<open>a\<close>, in this order, the path \<open>/a/b/x\<close>
  starts with \<open>/a/\<close> and resolves to \<open>a/b\<close>, not to \<open>a\<close>.
\<close>

theorem path_resolution_iff_counterexample:
  "getCIDKeyFromPath [(''a.'', hello_cid)] ''/ab'' = Inr (Some ''a.'') \<and>
   \<not> on_path ''a.'' ''/ab'' \<and>
   getCIDKeyFromPath [(''a/b'', hello_cid), (''a'', alexa_cid)] ''/a/b/x'' = Inr (Some ''a/b'') \<and>
   on_path ''a'' ''/a/b/x''"
  by (simp add: getCIDKeyFromPath_def obj_keys_def new_RegExp_def matches_def seq_of_def
      alt_of_def truthy_def on_path_def)

text \<open>
  C7, amended: for every snapshot, path-based resolution of \<open>/ab\<close> does not return the
  name \<open>a\<close>. For every snapshot whose names hold no pattern syntax and every path, it
  returns the first name, in key order, such that the path is \<open>/name\<close> or starts with
  \<open>/name/\<close>, and none where there is no such name or that name is empty: never a name
  by mere prefix-substring match.
\<close>

theorem path_resolution_by_label:
  "getCIDKeyFromPath vh ''/ab'' \<noteq> Inr (Some ''a'') \<and>
   (list_all plain (obj_keys vh) \<longrightarrow>
      getCIDKeyFromPath vh pathName =
        Inr (case find (\<lambda>key. on_path key pathName) (obj_keys vh) of
               None \<Rightarrow> None
             | Some key \<Rightarrow> if key = [] then None else Some key))"
proof
  show "getCIDKeyFromPath vh ''/ab'' \<noteq> Inr (Some ''a'')"
    using find_key_ab[of "obj_keys vh"]
    by (auto simp: getCIDKeyFromPath_def split: sum.splits)
next
  show "list_all plain (obj_keys vh) \<longrightarrow>
      getCIDKeyFromPath vh pathName =
        Inr (case find (\<lambda>key. on_path key pathName) (obj_keys vh) of
               None \<Rightarrow> None
             | Some key \<Rightarrow> if key = [] then None else Some key)"
    using find_key_plain[of "obj_keys vh" pathName]
    by (simp add: getCIDKeyFromPath_def truthy_def split: option.splits)
qed

theorem path_resolution_by_label_witness:
  "list_all plain (obj_keys two_vhosts) \<and>
   getCIDKeyFromPath two_vhosts ''/b/index.html'' = Inr (Some ''b'') \<and>
   getCIDKeyFromPath two_vhosts ''/bb/index.html'' = Inr None \<and>
   getCIDKeyFromPath two_vhosts ''/ab'' \<noteq> Inr (Some ''a'')"
proof -
  have p: "list_all plain (obj_keys two_vhosts)"
    by (simp add: two_vhosts_def obj_keys_def plain_def plain_char_def)
  show ?thesis
    using path_resolution_by_label[of two_vhosts "''/b/index.html''"]
          path_resolution_by_label[of two_vhosts "''/bb/index.html''"] p
    by (simp add: two_vhosts_def obj_keys_def on_path_def)
qed

text \<open>
  C9, as stated: a Host header whose host name, with any port suffix split off, is a
  literal IP address resolves to no vhost, whatever the snapshot holds. The host name the
  program tests is the text before the first \<open>:\<close>, so the bracketed IPv6 literal
  \<open>[::1]:8080\<close> is cut to \<open>[\<close>, which is no IP address and is looked up as a name:
  with a vhost of that name the host resolves to it.
\<close>

theorem bracketed_ipv6_host_counterexample:
  "getCIDKeyFromHost sample_lib [(''['', hello_cid)] (Some ''[::1]:8080'') = Inr (Some ''['')"
  by (simp add: getCIDKeyFromHost_def sample_lib_def sample_isIP_def obj_keys_def)

text \<open>
  C9, amended: for every snapshot and every Host header whose text before the first
  \<open>:\<close> is an IP address for \<open>isIP\<close> (an IPv4 literal, with or without a port),
  host-based resolution returns no vhost.
\<close>

theorem ip_literal_host_never_resolves:
  "isIP L (takeWhile (\<lambda>c. c \<noteq> CHR '':'') host) \<Longrightarrow> getCIDKeyFromHost L vh (Some host) = Inr None"
  by (simp add: getCIDKeyFromHost_def)

theorem ip_literal_host_never_resolves_witness:
  "isIP sample_lib (takeWhile (\<lambda>c. c \<noteq> CHR '':'') ''127.0.0.1:8080'') \<and>
   getCIDKeyFromHost sample_lib [(''127'', hello_cid)] (Some ''127.0.0.1:8080'') = Inr None"
proof -
  have i: "isIP sample_lib (takeWhile (\<lambda>c. c \<noteq> CHR '':'') ''127.0.0.1:8080'')"
    by (simp add: sample_lib_def sample_isIP_def is_ipv4_part_def is_digit_def index_value_def)
  show ?thesis
    using ip_literal_host_never_resolves[of sample_lib "''127.0.0.1:8080''" "[(''127'', hello_cid)]"] i
    by simp
qed

text \<open>
  C10. The claim is that path-based resolution returns a name or none for every snapshot
  and path, without throwing. A name is compiled as a pattern: where the first name of the
  snapshot is \<open>(\<close>, \<open>new RegExp\<close> throws a \<open>SyntaxError\<close> for every path.
\<close>

theorem path_resolution_throws:
  "getCIDKeyFromPath ((''('', cid) # vh) pathName = Inl (SyntaxError ''Unterminated group'')"
  by (simp add: getCIDKeyFromPath_def obj_keys_def new_RegExp_def)


section \<open>Further properties\<close>

text \<open>
  Names that hold pattern syntax. A quantifier does not throw, but is matched as one: with
  the name \<open>*\<close> the pattern is \<open>^/*($|/)\<close> and any run of slashes resolves to it. A lone
  \<open>{\<close> is a literal character, and so is a syntax character after a backslash. A lone
  \<open>[\<close> opens a character class that nothing closes.
\<close>

lemma quantifier_name_is_a_pattern: "getCIDKeyFromPath [(''*'', cid)] ''///x'' = Inr (Some ''*'')"
  by (simp add: getCIDKeyFromPath_def obj_keys_def new_RegExp_def matches_def seq_of_def
      alt_of_def truthy_def quantify_def)

lemma brace_name_is_literal: "getCIDKeyFromPath [(''{'', cid)] ''/{/x'' = Inr (Some ''{'')"
  by (simp add: getCIDKeyFromPath_def obj_keys_def new_RegExp_def matches_def seq_of_def
      alt_of_def truthy_def braced_quantifier_def is_digit_def)

lemma escaped_name_is_literal:
  "getCIDKeyFromPath [(CHR ''a'' # CHR 0x5C # ''.b'', cid)] ''/a.b/x'' =
     Inr (Some (CHR ''a'' # CHR 0x5C # ''.b'')) \<and>
   getCIDKeyFromPath [(CHR ''a'' # CHR 0x5C # ''.b'', cid)] ''/axb/x'' = Inr None"
  by (simp add: getCIDKeyFromPath_def obj_keys_def new_RegExp_def matches_def seq_of_def
      alt_of_def truthy_def)

lemma bracket_name_throws:
  "getCIDKeyFromPath ((''['', cid) # vh) pathName =
     Inl (SyntaxError ''Unterminated character class'')"
  by (simp add: getCIDKeyFromPath_def obj_keys_def new_RegExp_def)

lemma map_of_insert_index:
  "k \<notin> set (obj_keys vh) \<Longrightarrow> map_of (insert_index k v vh) k = Some v"
  by (induction vh) (auto simp: obj_keys_def)

lemma obj_get_insert_index:
  "k \<notin> set (obj_keys vh) \<Longrightarrow> obj_get (insert_index k v vh) k = Str v"
  by (simp add: obj_get_def map_of_insert_index)

lemma map_of_replace:
  "k \<in> set (obj_keys vh) \<Longrightarrow>
     map_of (map (\<lambda>e. if fst e = k then (k, v) else e) vh) k = Some v"
  by (induction vh) (auto simp: obj_keys_def)

lemma obj_get_replace:
  "k \<in> set (obj_keys vh) \<Longrightarrow> obj_get (map (\<lambda>e. if fst e = k then (k, v) else e) vh) k = Str v"
  by (simp add: obj_get_def map_of_replace)

lemma obj_get_obj_set: "obj_get (obj_set vh k v) k = Str v"
proof (cases "k \<in> set (obj_keys vh)")
  case True
  then show ?thesis by (simp add: obj_set_def obj_get_replace)
next
  case False
  then have n: "map_of vh k = None" by (simp add: obj_keys_def map_of_eq_None_iff)
  show ?thesis
  proof (cases "is_array_index k")
    case True
    then show ?thesis using False obj_get_insert_index[OF False] by (simp add: obj_set_def)
  next
    case nidx: False
    then show ?thesis using False n by (simp add: obj_set_def obj_get_def map_add_def)
  qed
qed

lemma map_of_obj_delete: "map_of (obj_delete vh k) k = None"
  by (induction vh) (auto simp: obj_delete_def)

lemma obj_get_obj_delete:
  "obj_get (obj_delete vh k) k = (if k \<in> set Object_prototype_names then Inherited k else Undefined)"
  by (simp add: obj_get_def map_of_obj_delete)

text \<open>
  Reserved names: \<open>create\<close> with a name of \<open>NAME_DENY_LIST\<close> answers 401
  \<open>name_not_allowed\<close> and leaves the world as it is, whatever the CID and the registry.
\<close>

lemma reserved_names_rejected:
  "name \<in> set NAME_DENY_LIST \<Longrightarrow>
     post_handler L name cid w = (\<lparr> status = 401, body = ErrorBody ''name_not_allowed'' \<rparr>, w)"
  by (simp add: post_handler_def)

text \<open>
  Round trip: where the name is not reserved, the CID is valid and not empty, the durable
  record can be read and publishing works, \<open>create\<close> answers 201 and a following \<open>get\<close>
  of the name answers the same name and CID.
\<close>

lemma create_then_get:
  assumes "name \<notin> set NAME_DENY_LIST" and "isValidCID L cid" and "cid \<noteq> []"
      and "durable w = Some d" and "can_publish w"
  shows "fst (post_handler L name cid w) = \<lparr> status = 201, body = Empty \<rparr> \<and>
         fst (get_handler name (snd (post_handler L name cid w))) =
           \<lparr> status = 200, body = VhostBody name (Str cid) \<rparr>"
proof -
  let ?w2 = "w\<lparr>state_vhosts := obj_set d name cid, trace := trace w @ [Refreshed],
                durable := Some (obj_set d name cid),
                trace := trace w @ [Refreshed, Published (obj_set d name cid)]\<rparr>"
  have p: "post_handler L name cid w = (\<lparr> status = 201, body = Empty \<rparr>, ?w2)"
    using assms by (simp add: post_handler_def addVhost_def refreshVhosts_def publishVhosts_def)
  have g: "fst (get_handler name ?w2) = \<lparr> status = 200, body = VhostBody name (Str cid) \<rparr>"
    using assms(3) by (simp add: get_handler_def getVhostByName_def refreshVhosts_def
        obj_get_obj_set truthy_def)
  show ?thesis using p g by simp
qed

text \<open>
  Delete, then get: after a \<open>delete\<close> that answered 200, \<open>get\<close> of the name answers 404
  \<open>not_found\<close>, unless the name is one that every object inherits: for \<open>toString\<close>,
  \<open>get\<close> finds the inherited function and answers 200.
\<close>

lemma delete_then_get:
  assumes "status (fst (delete_handler sch name w)) = 200"
      and "name \<notin> set Object_prototype_names"
  shows "fst (get_handler name (snd (delete_handler sch name w))) =
           \<lparr> status = 404, body = ErrorBody ''not_found'' \<rparr>"
proof -
  obtain d where d: "durable w = Some d"
    using assms(1) by (cases "durable w"; cases sch)
      (auto simp: delete_handler_def call_without_await_def truthy_promise_def land_def
        deleteVhostByName_def refreshVhosts_def uncaught_def)
  have c: "can_publish w"
    using assms(1) d by (cases "can_publish w"; cases sch)
      (auto simp: delete_handler_def call_without_await_def truthy_promise_def land_def
        deleteVhostByName_def refreshVhosts_def publishVhosts_def uncaught_def)
  have "durable (snd (delete_handler sch name w)) = Some (obj_delete d name)"
    using d c by (cases sch)
      (auto simp: delete_handler_def call_without_await_def truthy_promise_def land_def
        deleteVhostByName_def refreshVhosts_def publishVhosts_def)
  then show ?thesis
    using assms(2)
    by (simp add: get_handler_def getVhostByName_def refreshVhosts_def obj_get_obj_delete)
qed

lemma get_finds_inherited_name:
  "fst (get_handler ''toString'' empty_world) =
     \<lparr> status = 200, body = VhostBody ''toString'' (Inherited ''toString'') \<rparr>"
  by (simp add: get_handler_def getVhostByName_def refreshVhosts_def empty_world_def obj_get_def
      Object_prototype_names_def)

text \<open>
  Pass-through: a request whose Host and path resolve to no vhost goes to the gateway with
  its path, provided the gateway's own host resolves to no vhost and no vhost is named
  \<open>null\<close>. (\<open>replaceIPFSPath\<close> is called with the \<open>null\<close> key and reads the property
  named \<open>null\<close>; the second lemma shows what a vhost of that name does.)
\<close>

lemma pass_through_default:
  assumes "getCIDKeyFromHost L vh host = Inr None"
      and "getCIDKeyFromHost L vh (Some (gw_host gw)) = Inr None"
      and "getCIDKeyFromPath vh path = Inr None"
      and "cid_absent vh ''null''"
  shows "forward_request L gw vh vh host path = Inr \<lparr> out_host = gw_host gw, out_path = Some path \<rparr>"
  using assms
  by (simp add: forward_request_def proxyReq_handler_def fallback_handler_def
      getIPFSPathFromPath_def replaceIPFSPath_def cid_absent_def)

lemma null_vhost_rewrites_unresolved_path:
  "getCIDKeyFromPath [(''null'', hello_cid)] ''/x/null/y'' = Inr None \<and>
   forward_request sample_lib ip_gateway [(''null'', hello_cid)] [(''null'', hello_cid)]
       (Some ''proxy.example.com'') ''/x/null/y'' =
     Inr \<lparr> out_host = ''127.0.0.1:8080'', out_path = Some (''/x/ipfs/'' @ hello_cid @ ''/y'') \<rparr>"
  by (simp add: getCIDKeyFromPath_def obj_keys_def new_RegExp_def matches_def seq_of_def
      alt_of_def truthy_def forward_request_def fallback_handler_def proxyReq_handler_def
      getCIDKeyFromHost_def sample_lib_def sample_isIP_def is_ipv4_part_def is_digit_def
      index_value_def getIPFSPathFromPath_def replaceIPFSPath_def obj_get_def js_replace_def
      hello_cid_def ip_gateway_def)

text \<open>
  The two examples of the specification. With the vhost \<open>hello\<close> and a gateway without
  subdomain support, the path \<open>/hello/index.html\<close> becomes
  \<open>/ipfs/<CID of hello>/index.html\<close>. With a gateway that supports subdomains at
  \<open>gw.example.com\<close>, a request to the Host \<open>hello.example.com\<close> leaves with the Host
  \<open><CID of hello>.ipfs.gw.example.com\<close> and its path.
\<close>

lemma path_rewrite_example:
  "forward_request sample_lib ip_gateway [(''hello'', hello_cid)] [(''hello'', hello_cid)]
       (Some ''proxy.example.com'') ''/hello/index.html'' =
     Inr \<lparr> out_host = ''127.0.0.1:8080'',
           out_path = Some (''/ipfs/'' @ hello_cid @ ''/index.html'') \<rparr>"
  by (simp add: getCIDKeyFromPath_def obj_keys_def new_RegExp_def matches_def seq_of_def
      alt_of_def truthy_def forward_request_def fallback_handler_def proxyReq_handler_def
      getCIDKeyFromHost_def sample_lib_def sample_isIP_def is_ipv4_part_def is_digit_def
      index_value_def getIPFSPathFromPath_def replaceIPFSPath_def obj_get_def js_replace_def
      hello_cid_def ip_gateway_def)

lemma subdomain_rewrite_example:
  "forward_request sample_lib dns_gateway [(''hello'', hello_cid)] [(''hello'', hello_cid)]
       (Some ''hello.example.com'') ''/index.html'' =
     Inr \<lparr> out_host = hello_cid @ ''.ipfs.gw.example.com'', out_path = Some ''/index.html'' \<rparr>"
  by (simp add: getCIDKeyFromPath_def obj_keys_def new_RegExp_def matches_def seq_of_def
      alt_of_def truthy_def forward_request_def fallback_handler_def proxyReq_handler_def
      getCIDKeyFromHost_def sample_lib_def sample_isIP_def getIPFSPathFromPath_def
      replaceIPFSPath_def getIPFSHostFromCIDKey_def obj_get_def hello_cid_def alexa_cid_def
      dns_gateway_def isTargetSubdomainsSupported_def Object_prototype_names_def)

end
